theory Spec2Isabelle
  imports Main "HOL-Library.Multiset"
begin

section \<open>Data model (types.ts)\<close>

text \<open>
  The three interfaces of the roster manager. A JavaScript \<open>number\<close> that holds an
  identifier, a counter, a power or a relay count is modelled as an unbounded \<open>int\<close>
  (the values the handlers produce are integers: \<open>Date.now()\<close>, a counter starting at 1,
  \<open>parseInt\<close> results, a form value times 1000). A JavaScript string is a \<open>string\<close>,
  one \<open>char\<close> per code unit below 256.
\<close>

datatype KnightStatus = Waiting | InParty | OffDuty

datatype ClientStatus = ClientWaiting | ClientInParty | Completed

record Knight =
  k_id :: int
  k_name :: string
  k_job :: string
  k_power :: int
  k_relayCount :: int
  k_status :: KnightStatus

record Client =
  c_id :: int
  c_name :: string
  c_job :: string
  c_power :: int
  c_notes :: string
  c_status :: ClientStatus

record Party =
  p_id :: int
  p_knights :: "Knight list"
  p_clients :: "Client list"
  p_isCompleted :: bool

text \<open>
  The application state of \<open>App\<close>: the six \<open>useState\<close> cells that hold the roster.
  The cells that only drive dialogs (\<open>itemToEdit\<close>, \<open>itemToDelete\<close>,
  \<open>partyToCompleteId\<close>, the modal flags) are passed to the handlers that read them.
\<close>

record state =
  knights :: "Knight list"
  clients :: "Client list"
  parties :: "Party list"
  selectedKnightIds :: "int list"
  selectedClientIds :: "int list"
  partyIdCounter :: int

definition initial :: state where
  "initial = \<lparr>knights = [], clients = [], parties = [],
     selectedKnightIds = [], selectedClientIds = [], partyIdCounter = 1\<rparr>"

text \<open>The values a form delivers: \<open>name\<close>, \<open>job\<close>, \<open>power\<close>, \<open>notes\<close>.\<close>

record formData =
  f_name :: string
  f_job :: string
  f_power :: int
  f_notes :: string

datatype itemType = KnightType | ClientType

datatype item = KnightItem Knight | ClientItem Client

text \<open>What a handler passes to \<open>alert\<close>.\<close>

datatype alert =
    SelectAtLeastOneOfEach
  | NoDataToImport
  | ImportSummary nat "nat option"

section \<open>Handlers of App.tsx\<close>

definition handleAddKnight :: "int \<Rightarrow> formData \<Rightarrow> state \<Rightarrow> state" where
  "handleAddKnight now d s =
     s\<lparr>knights := knights s @
        [\<lparr>k_id = now, k_name = f_name d, k_job = f_job d, k_power = f_power d * 1000,
          k_relayCount = 0, k_status = Waiting\<rparr>]\<rparr>"

definition handleAddClient :: "int \<Rightarrow> formData \<Rightarrow> state \<Rightarrow> state" where
  "handleAddClient now d s =
     s\<lparr>clients := clients s @
        [\<lparr>c_id = now, c_name = f_name d, c_job = f_job d, c_power = f_power d * 1000,
          c_notes = f_notes d, c_status = ClientWaiting\<rparr>]\<rparr>"

text \<open>
  \<open>handleUpdateItem\<close>: the edited item is the spread of \<open>itemToEdit\<close> overwritten by the
  form values, so identifier, relay count and status are those of \<open>itemToEdit\<close>.
\<close>

fun handleUpdateItem :: "item option \<Rightarrow> formData \<Rightarrow> state \<Rightarrow> state" where
  "handleUpdateItem None d s = s"
| "handleUpdateItem (Some (KnightItem e)) d s =
     s\<lparr>knights := map (\<lambda>k. if k_id k = k_id e
          then e\<lparr>k_name := f_name d, k_job := f_job d, k_power := f_power d * 1000\<rparr>
          else k) (knights s)\<rparr>"
| "handleUpdateItem (Some (ClientItem e)) d s =
     s\<lparr>clients := map (\<lambda>c. if c_id c = c_id e
          then e\<lparr>c_name := f_name d, c_job := f_job d, c_power := f_power d * 1000,
                 c_notes := f_notes d\<rparr>
          else c) (clients s)\<rparr>"

fun handleDelete :: "(itemType \<times> int) option \<Rightarrow> state \<Rightarrow> state" where
  "handleDelete None s = s"
| "handleDelete (Some (KnightType, i)) s =
     s\<lparr>knights := filter (\<lambda>k. k_id k \<noteq> i) (knights s)\<rparr>"
| "handleDelete (Some (ClientType, i)) s =
     s\<lparr>clients := filter (\<lambda>c. c_id c \<noteq> i) (clients s)\<rparr>"

definition toggleId :: "int \<Rightarrow> int list \<Rightarrow> int list" where
  "toggleId i prev = (if i \<in> set prev then filter (\<lambda>j. j \<noteq> i) prev else prev @ [i])"

fun toggleSelection :: "int \<Rightarrow> itemType \<Rightarrow> state \<Rightarrow> state" where
  "toggleSelection i KnightType s =
     (case find (\<lambda>k. k_id k = i) (knights s) of
        Some knight \<Rightarrow>
          if k_status knight \<noteq> Waiting then s
          else s\<lparr>selectedKnightIds := toggleId i (selectedKnightIds s)\<rparr>
      | None \<Rightarrow> s\<lparr>selectedKnightIds := toggleId i (selectedKnightIds s)\<rparr>)"
| "toggleSelection i ClientType s =
     (case find (\<lambda>c. c_id c = i) (clients s) of
        Some client \<Rightarrow>
          if c_status client \<noteq> ClientWaiting then s
          else s\<lparr>selectedClientIds := toggleId i (selectedClientIds s)\<rparr>
      | None \<Rightarrow> s\<lparr>selectedClientIds := toggleId i (selectedClientIds s)\<rparr>)"

definition handleCreateParty :: "state \<Rightarrow> alert option \<times> state" where
  "handleCreateParty s =
     (if selectedKnightIds s = [] \<or> selectedClientIds s = []
      then (Some SelectAtLeastOneOfEach, s)
      else
        let partyKnights = filter (\<lambda>k. k_id k \<in> set (selectedKnightIds s)) (knights s);
            partyClients = filter (\<lambda>c. c_id c \<in> set (selectedClientIds s)) (clients s);
            newParty = \<lparr>p_id = partyIdCounter s, p_knights = partyKnights,
                        p_clients = partyClients, p_isCompleted = False\<rparr>
        in (None,
            s\<lparr>parties := parties s @ [newParty],
              knights := map (\<lambda>k. if k_id k \<in> set (selectedKnightIds s)
                                   then k\<lparr>k_status := InParty\<rparr> else k) (knights s),
              clients := map (\<lambda>c. if c_id c \<in> set (selectedClientIds s)
                                   then c\<lparr>c_status := ClientInParty\<rparr> else c) (clients s),
              partyIdCounter := partyIdCounter s + 1,
              selectedKnightIds := [],
              selectedClientIds := []\<rparr>))"

definition handleCompleteMission :: "int \<Rightarrow> state \<Rightarrow> state" where
  "handleCompleteMission partyId s =
     (case find (\<lambda>p. p_id p = partyId) (parties s) of
        None \<Rightarrow> s
      | Some partyToComplete \<Rightarrow>
          let knightIds = map k_id (p_knights partyToComplete);
              clientIds = map c_id (p_clients partyToComplete)
          in s\<lparr>knights := map (\<lambda>k. if k_id k \<in> set knightIds
                   then k\<lparr>k_relayCount := k_relayCount k + 1, k_status := Waiting\<rparr>
                   else k) (knights s),
               clients := map (\<lambda>c. if c_id c \<in> set clientIds
                   then c\<lparr>c_status := Completed\<rparr> else c) (clients s),
               parties := filter (\<lambda>p. p_id p \<noteq> partyId) (parties s)\<rparr>)"

definition handleToggleKnightStatus :: "int \<Rightarrow> state \<Rightarrow> state" where
  "handleToggleKnightStatus knightId s =
     s\<lparr>knights := map (\<lambda>k.
          if k_id k = knightId then
            (if k_status k = Waiting then k\<lparr>k_status := OffDuty\<rparr>
             else if k_status k = OffDuty then k\<lparr>k_status := Waiting\<rparr>
             else k)
          else k) (knights s)\<rparr>"

section \<open>Display order and roster export\<close>










definition newline :: char where
  "newline = CHR 0x0A"



section \<open>Roster import\<close>

text \<open>
  The white space of \<open>String.prototype.trim\<close> and of \<open>parseInt\<close>, among the code units
  below 256: tab, line feed, vertical tab, form feed, carriage return, space and
  no-break space.
\<close>

definition isWhiteSpace :: "char \<Rightarrow> bool" where
  "isWhiteSpace c \<longleftrightarrow>
     c = CHR 0x09 \<or> c = CHR 0x0A \<or> c = CHR 0x0B \<or> c = CHR 0x0C \<or> c = CHR 0x0D \<or>
     c = CHR 0x20 \<or> c = CHR 0xA0"

definition trim :: "string \<Rightarrow> string" where
  "trim s = rev (dropWhile isWhiteSpace (rev (dropWhile isWhiteSpace s)))"

text \<open>\<open>s.split(sep)\<close> for a separator of one character: never an empty array.\<close>

fun split :: "char \<Rightarrow> string \<Rightarrow> string list" where
  "split sep [] = [[]]"
| "split sep (c # cs) =
     (if c = sep then [] # split sep cs
      else (case split sep cs of [] \<Rightarrow> [[c]] | p # ps \<Rightarrow> (c # p) # ps))"

definition isDigit :: "char \<Rightarrow> bool" where
  "isDigit c \<longleftrightarrow> 48 \<le> (of_char c :: nat) \<and> (of_char c :: nat) \<le> 57"

definition digitsValue :: "string \<Rightarrow> nat" where
  "digitsValue ds = foldl (\<lambda>a c. 10 * a + (of_char c - 48)) 0 ds"

text \<open>
  \<open>parseInt(s, 10)\<close>: leading white space is skipped, one sign is read, then the longest
  run of decimal digits; \<open>NaN\<close> (here \<open>None\<close>) when that run is empty. What follows the
  digits is ignored.
\<close>

definition parseInt :: "string \<Rightarrow> int option" where
  "parseInt s =
     (let t = dropWhile isWhiteSpace s;
          neg = (t \<noteq> [] \<and> hd t = CHR ''-'');
          u = (if t \<noteq> [] \<and> (hd t = CHR ''-'' \<or> hd t = CHR ''+'') then tl t else t);
          ds = takeWhile isDigit u
      in if ds = [] then None
         else Some (if neg then - int (digitsValue ds) else int (digitsValue ds)))"

text \<open>
  The body of the \<open>forEach\<close> callback of \<open>handleImportKnights\<close> for one line:
  \<open>Some\<close> the knight pushed to \<open>newKnights\<close>, or \<open>None\<close> when \<open>invalidLines\<close> is
  incremented. \<open>now\<close> is the reading of \<open>Date.now()\<close> while the line is processed.
\<close>

definition importLine :: "int \<Rightarrow> nat \<Rightarrow> string \<Rightarrow> Knight option" where
  "importLine now index line =
     (case split CHR '':'' line of
        [name, job, powerStr, relayCountStr] \<Rightarrow>
          (case parseInt powerStr of
             None \<Rightarrow> None
           | Some powerNum \<Rightarrow>
               (case parseInt relayCountStr of
                  None \<Rightarrow> None
                | Some relayCountNum \<Rightarrow>
                    if name \<noteq> [] \<and> job \<noteq> []
                    then Some \<lparr>k_id = now + int index, k_name = trim name, k_job = trim job,
                               k_power = powerNum, k_relayCount = relayCountNum,
                               k_status = OffDuty\<rparr>
                    else None))
      | _ \<Rightarrow> None)"

fun importLines :: "(nat \<Rightarrow> int) \<Rightarrow> nat \<Rightarrow> string list \<Rightarrow> Knight option list" where
  "importLines clock index [] = []"
| "importLines clock index (line # rest) =
     importLine (clock index) index line # importLines clock (Suc index) rest"

fun somes :: "'a option list \<Rightarrow> 'a list" where
  "somes [] = []"
| "somes (None # rs) = somes rs"
| "somes (Some x # rs) = x # somes rs"

definition importResults :: "(nat \<Rightarrow> int) \<Rightarrow> string \<Rightarrow> Knight option list" where
  "importResults clock data = importLines clock 0 (split newline (trim data))"

text \<open>
  \<open>handleImportKnights\<close>: \<open>clock i\<close> is the reading of \<open>Date.now()\<close> at line \<open>i\<close>. The
  result is the alert shown and the new state; the summary names the skipped lines only
  when there are some.
\<close>

definition handleImportKnights :: "(nat \<Rightarrow> int) \<Rightarrow> string \<Rightarrow> state \<Rightarrow> alert \<times> state" where
  "handleImportKnights clock data s =
     (if trim data = [] then (NoDataToImport, s)
      else
        let results = importResults clock data;
            newKnights = somes results;
            invalidLines = length (filter (\<lambda>r. r = None) results)
        in (ImportSummary (length newKnights)
              (if invalidLines > 0 then Some invalidLines else None),
            if newKnights \<noteq> [] then s\<lparr>knights := knights s @ newKnights\<rparr> else s))"

section \<open>Reachable states\<close>

text \<open>
  The identifiers in use for knights and for clients: those of the collection and those
  of the snapshots held by the live parties.
\<close>

definition partyKnightIds :: "state \<Rightarrow> int list" where
  "partyKnightIds s = concat (map (\<lambda>p. map k_id (p_knights p)) (parties s))"

definition partyClientIds :: "state \<Rightarrow> int list" where
  "partyClientIds s = concat (map (\<lambda>p. map c_id (p_clients p)) (parties s))"

definition freshKnightIds :: "int list \<Rightarrow> state \<Rightarrow> bool" where
  "freshKnightIds ids s \<longleftrightarrow>
     distinct ids \<and>
     list_all (\<lambda>i. i \<notin> set (map k_id (knights s)) \<and> i \<notin> set (partyKnightIds s)) ids"

definition freshClientIds :: "int list \<Rightarrow> state \<Rightarrow> bool" where
  "freshClientIds ids s \<longleftrightarrow>
     distinct ids \<and>
     list_all (\<lambda>i. i \<notin> set (map c_id (clients s)) \<and> i \<notin> set (partyClientIds s)) ids"

text \<open>
  The states the application can be in: it starts in \<open>initial\<close> and every event runs one
  handler to completion. Identifiers come from \<open>Date.now()\<close>; a step that creates
  entities is taken with readings that give identifiers not in use (the time source does
  not hand out an identifier twice). The edit dialog is opened on an entity of the
  current collection and covers the page until it is submitted or cancelled, so
  \<open>handleUpdateItem\<close> runs with an \<open>itemToEdit\<close> that is in the collection.
\<close>

inductive reachable :: "state \<Rightarrow> bool" where
  start: "reachable initial"
| addKnight: "reachable s \<Longrightarrow> freshKnightIds [now] s \<Longrightarrow> reachable (handleAddKnight now d s)"
| addClient: "reachable s \<Longrightarrow> freshClientIds [now] s \<Longrightarrow> reachable (handleAddClient now d s)"
| updateKnight: "reachable s \<Longrightarrow> e \<in> set (knights s) \<Longrightarrow>
     reachable (handleUpdateItem (Some (KnightItem e)) d s)"
| updateClient: "reachable s \<Longrightarrow> f \<in> set (clients s) \<Longrightarrow>
     reachable (handleUpdateItem (Some (ClientItem f)) d s)"
| delete: "reachable s \<Longrightarrow> reachable (handleDelete x s)"
| select: "reachable s \<Longrightarrow> reachable (toggleSelection i t s)"
| createParty: "reachable s \<Longrightarrow> reachable (snd (handleCreateParty s))"
| completeMission: "reachable s \<Longrightarrow> reachable (handleCompleteMission p s)"
| toggleDuty: "reachable s \<Longrightarrow> reachable (handleToggleKnightStatus i s)"
| importKnights: "reachable s \<Longrightarrow>
     freshKnightIds (map k_id (somes (importResults clock data))) s \<Longrightarrow>
     reachable (snd (handleImportKnights clock data s))"






text \<open>
  The facts that hold in every reachable state and from which the correspondence between
  the status in-party and the live parties follows: party ids are pairwise distinct and
  below the counter; an entity of a collection is in-party exactly when a live party
  lists its id; no id is listed by two live parties; and no selected entity of a
  collection is listed by a live party.
\<close>

definition partiesOk :: "state \<Rightarrow> bool" where
  "partiesOk s \<longleftrightarrow>
     distinct (map p_id (parties s)) \<and> (\<forall>p \<in> set (parties s). p_id p < partyIdCounter s)"



section \<open>A sample session\<close>

text \<open>
  The session of the specification's example: a knight and a client are added, both are
  selected, a party is formed.
\<close>

definition hong :: formData where
  "hong = \<lparr>f_name = ''Hong'', f_job = ''Rogue'', f_power = 50, f_notes = []\<rparr>"

definition kim :: formData where
  "kim = \<lparr>f_name = ''Kim'', f_job = ''Mage'', f_power = 30, f_notes = ''urgent''\<rparr>"

definition roster :: state where
  "roster = handleAddClient 2 kim (handleAddKnight 1 hong initial)"

definition selected :: state where
  "selected = toggleSelection 2 ClientType (toggleSelection 1 KnightType roster)"

definition formed :: state where
  "formed = snd (handleCreateParty selected)"

section \<open>Completing a mission\<close>

lemma find_filter_neq_None:
  "find (\<lambda>p. f p = a) (filter (\<lambda>p. f p \<noteq> a) xs) = None"
  by (simp add: find_None_iff)

text \<open>
  C6. Completing the same party id twice in succession: the second call finds no party
  with that id and returns the state of the first call as it is, so no relay count is
  incremented twice.
\<close>

theorem completeMission_twice:
  "handleCompleteMission p (handleCompleteMission p s) = handleCompleteMission p s"
proof (cases "find (\<lambda>q. p_id q = p) (parties s)")
  case None
  then show ?thesis by (simp add: handleCompleteMission_def)
next
  case (Some q)
  then show ?thesis
    by (simp add: handleCompleteMission_def Let_def find_filter_neq_None)
qed




section \<open>Forming a party\<close>

text \<open>
  C1. \<open>formParty\<close> is all-or-nothing. With an empty selection on either side the
  handler reports the validation alert and returns the state as it is. Otherwise no alert
  is shown, exactly one party is appended, its id is the current counter and its
  snapshots are the selected entities of the collections, the counter grows by one,
  every knight and client whose id is selected has status in-party afterwards (the others
  are untouched), and both selections are empty.
\<close>

theorem formParty_all_or_nothing:
  "(selectedKnightIds s = [] \<or> selectedClientIds s = [] \<longrightarrow>
      handleCreateParty s = (Some SelectAtLeastOneOfEach, s)) \<and>
   (selectedKnightIds s \<noteq> [] \<and> selectedClientIds s \<noteq> [] \<longrightarrow>
      fst (handleCreateParty s) = None \<and>
      (\<exists>p. parties (snd (handleCreateParty s)) = parties s @ [p] \<and>
           p_id p = partyIdCounter s \<and>
           p_knights p = filter (\<lambda>k. k_id k \<in> set (selectedKnightIds s)) (knights s) \<and>
           p_clients p = filter (\<lambda>c. c_id c \<in> set (selectedClientIds s)) (clients s)) \<and>
      partyIdCounter (snd (handleCreateParty s)) = partyIdCounter s + 1 \<and>
      knights (snd (handleCreateParty s)) =
        map (\<lambda>k. if k_id k \<in> set (selectedKnightIds s) then k\<lparr>k_status := InParty\<rparr> else k)
          (knights s) \<and>
      clients (snd (handleCreateParty s)) =
        map (\<lambda>c. if c_id c \<in> set (selectedClientIds s) then c\<lparr>c_status := ClientInParty\<rparr> else c)
          (clients s) \<and>
      (\<forall>k \<in> set (knights (snd (handleCreateParty s))).
         k_id k \<in> set (selectedKnightIds s) \<longrightarrow> k_status k = InParty) \<and>
      (\<forall>c \<in> set (clients (snd (handleCreateParty s))).
         c_id c \<in> set (selectedClientIds s) \<longrightarrow> c_status c = ClientInParty) \<and>
      selectedKnightIds (snd (handleCreateParty s)) = [] \<and>
      selectedClientIds (snd (handleCreateParty s)) = [])"
proof (intro conjI impI)
  assume "selectedKnightIds s = [] \<or> selectedClientIds s = []"
  then show "handleCreateParty s = (Some SelectAtLeastOneOfEach, s)"
    by (auto simp: handleCreateParty_def)
next
  assume sel: "selectedKnightIds s \<noteq> [] \<and> selectedClientIds s \<noteq> []"
  then show "fst (handleCreateParty s) = None"
    by (simp add: handleCreateParty_def Let_def)
  from sel show "\<exists>p. parties (snd (handleCreateParty s)) = parties s @ [p] \<and>
           p_id p = partyIdCounter s \<and>
           p_knights p = filter (\<lambda>k. k_id k \<in> set (selectedKnightIds s)) (knights s) \<and>
           p_clients p = filter (\<lambda>c. c_id c \<in> set (selectedClientIds s)) (clients s)"
    by (simp add: handleCreateParty_def Let_def)
  from sel show "partyIdCounter (snd (handleCreateParty s)) = partyIdCounter s + 1"
    by (simp add: handleCreateParty_def Let_def)
  from sel show k: "knights (snd (handleCreateParty s)) =
        map (\<lambda>k. if k_id k \<in> set (selectedKnightIds s) then k\<lparr>k_status := InParty\<rparr> else k)
          (knights s)"
    by (simp add: handleCreateParty_def Let_def)
  from sel show c: "clients (snd (handleCreateParty s)) =
        map (\<lambda>c. if c_id c \<in> set (selectedClientIds s) then c\<lparr>c_status := ClientInParty\<rparr> else c)
          (clients s)"
    by (simp add: handleCreateParty_def Let_def)
  show "\<forall>k \<in> set (knights (snd (handleCreateParty s))).
         k_id k \<in> set (selectedKnightIds s) \<longrightarrow> k_status k = InParty"
    unfolding k by auto
  show "\<forall>c \<in> set (clients (snd (handleCreateParty s))).
         c_id c \<in> set (selectedClientIds s) \<longrightarrow> c_status c = ClientInParty"
    unfolding c by auto
  from sel show "selectedKnightIds (snd (handleCreateParty s)) = []"
    by (simp add: handleCreateParty_def Let_def)
  from sel show "selectedClientIds (snd (handleCreateParty s)) = []"
    by (simp add: handleCreateParty_def Let_def)
qed

lemmas session_defs =
  hong_def kim_def roster_def selected_def formed_def initial_def
  handleAddKnight_def handleAddClient_def toggleId_def handleCreateParty_def Let_def

theorem formParty_all_or_nothing_witness:
  "handleCreateParty initial = (Some SelectAtLeastOneOfEach, initial) \<and>
   selectedKnightIds selected = [1] \<and> selectedClientIds selected = [2] \<and>
   fst (handleCreateParty selected) = None \<and>
   map p_id (parties (snd (handleCreateParty selected))) = [1] \<and>
   partyIdCounter (snd (handleCreateParty selected)) = 2 \<and>
   map k_status (knights (snd (handleCreateParty selected))) = [InParty] \<and>
   map c_status (clients (snd (handleCreateParty selected))) = [ClientInParty] \<and>
   selectedKnightIds (snd (handleCreateParty selected)) = [] \<and>
   selectedClientIds (snd (handleCreateParty selected)) = []"
proof -
  have e: "selectedKnightIds initial = [] \<or> selectedClientIds initial = []"
    by (simp add: initial_def)
  have k: "selectedKnightIds selected = [1]" and c: "selectedClientIds selected = [2]"
    by (simp_all add: session_defs)
  have ks: "knights selected = knights roster" and cs: "clients selected = clients roster"
    and ps: "parties selected = []" and n: "partyIdCounter selected = 1"
    by (simp_all add: session_defs)
  have ne: "selectedKnightIds selected \<noteq> [] \<and> selectedClientIds selected \<noteq> []"
    by (simp add: k c)
  from formParty_all_or_nothing [of initial] e
  have a: "handleCreateParty initial = (Some SelectAtLeastOneOfEach, initial)" by blast
  from formParty_all_or_nothing [of selected] ne
  have b: "fst (handleCreateParty selected) = None \<and>
      (\<exists>p. parties (snd (handleCreateParty selected)) = parties selected @ [p] \<and>
           p_id p = partyIdCounter selected \<and>
           p_knights p = filter (\<lambda>k. k_id k \<in> set (selectedKnightIds selected)) (knights selected) \<and>
           p_clients p = filter (\<lambda>c. c_id c \<in> set (selectedClientIds selected)) (clients selected)) \<and>
      partyIdCounter (snd (handleCreateParty selected)) = partyIdCounter selected + 1 \<and>
      knights (snd (handleCreateParty selected)) =
        map (\<lambda>k. if k_id k \<in> set (selectedKnightIds selected) then k\<lparr>k_status := InParty\<rparr> else k)
          (knights selected) \<and>
      clients (snd (handleCreateParty selected)) =
        map (\<lambda>c. if c_id c \<in> set (selectedClientIds selected) then c\<lparr>c_status := ClientInParty\<rparr> else c)
          (clients selected) \<and>
      selectedKnightIds (snd (handleCreateParty selected)) = [] \<and>
      selectedClientIds (snd (handleCreateParty selected)) = []" by blast
  have r: "map k_id (knights roster) = [1]" "map c_id (clients roster) = [2]"
    by (simp_all add: session_defs)
  from b have p: "map p_id (parties (snd (handleCreateParty selected))) = [1]"
    by (auto simp: ps n)
  from b have q: "partyIdCounter (snd (handleCreateParty selected)) = 2"
    by (simp add: n)
  from b have ki: "map k_status (knights (snd (handleCreateParty selected))) = [InParty]"
    by (simp add: k ks roster_def handleAddKnight_def handleAddClient_def initial_def)
  from b have ci: "map c_status (clients (snd (handleCreateParty selected))) = [ClientInParty]"
    by (simp add: c cs roster_def handleAddKnight_def handleAddClient_def initial_def)
  from a k c b p q ki ci show ?thesis by simp
qed




section \<open>Selection\<close>



text \<open>
  C10. The selections are not kept consistent with the collections. \<open>handleDelete\<close>
  leaves both selections as they are, \<open>toggleSelection\<close> with an id that matches no
  entity of the collection still toggles that id, and the snapshot of a new party holds
  only the selected entities that exist: in the sample session, deleting the selected
  knight before forming the party gives a party with no knight while both selections
  are non-empty (and likewise for the client).
\<close>

theorem selection_not_consistent:
  "selectedKnightIds (handleDelete x s) = selectedKnightIds s \<and>
   selectedClientIds (handleDelete x s) = selectedClientIds s \<and>
   (find (\<lambda>k. k_id k = i) (knights s) = None \<longrightarrow>
      toggleSelection i KnightType s = s\<lparr>selectedKnightIds := toggleId i (selectedKnightIds s)\<rparr>) \<and>
   (find (\<lambda>c. c_id c = i) (clients s) = None \<longrightarrow>
      toggleSelection i ClientType s = s\<lparr>selectedClientIds := toggleId i (selectedClientIds s)\<rparr>) \<and>
   selectedKnightIds (handleDelete (Some (KnightType, 1)) selected) = [1] \<and>
   selectedClientIds (handleDelete (Some (KnightType, 1)) selected) = [2] \<and>
   map p_knights (parties (snd (handleCreateParty (handleDelete (Some (KnightType, 1)) selected))))
     = [[]] \<and>
   selectedKnightIds (handleDelete (Some (ClientType, 2)) selected) = [1] \<and>
   selectedClientIds (handleDelete (Some (ClientType, 2)) selected) = [2] \<and>
   map p_clients (parties (snd (handleCreateParty (handleDelete (Some (ClientType, 2)) selected))))
     = [[]]"
proof -
  have d: "selectedKnightIds (handleDelete x s) = selectedKnightIds s \<and>
      selectedClientIds (handleDelete x s) = selectedClientIds s"
    by (cases "(x, s)" rule: handleDelete.cases) simp_all
  have e: "selectedKnightIds (handleDelete (Some (KnightType, 1)) selected) = [1] \<and>
      selectedClientIds (handleDelete (Some (KnightType, 1)) selected) = [2] \<and>
      map p_knights (parties (snd (handleCreateParty (handleDelete (Some (KnightType, 1)) selected))))
        = [[]]"
    by (simp add: session_defs)
  have f: "selectedKnightIds (handleDelete (Some (ClientType, 2)) selected) = [1] \<and>
      selectedClientIds (handleDelete (Some (ClientType, 2)) selected) = [2] \<and>
      map p_clients (parties (snd (handleCreateParty (handleDelete (Some (ClientType, 2)) selected))))
        = [[]]"
    by (simp add: session_defs)
  from d e f show ?thesis by simp
qed

theorem selection_not_consistent_witness:
  "find (\<lambda>k. k_id k = 9) (knights roster) = None \<and>
   selectedKnightIds (toggleSelection 9 KnightType roster) = [9] \<and>
   find (\<lambda>c. c_id c = 9) (clients roster) = None \<and>
   selectedClientIds (toggleSelection 9 ClientType roster) = [9]"
proof -
  have n: "find (\<lambda>k. k_id k = 9) (knights roster) = None"
    and m: "find (\<lambda>c. c_id c = 9) (clients roster) = None"
    and e: "selectedKnightIds roster = []" "selectedClientIds roster = []"
    by (simp_all add: session_defs)
  from selection_not_consistent [of "None" roster 9] n m
  have "toggleSelection 9 KnightType roster =
          roster\<lparr>selectedKnightIds := toggleId 9 (selectedKnightIds roster)\<rparr>"
    and "toggleSelection 9 ClientType roster =
          roster\<lparr>selectedClientIds := toggleId 9 (selectedClientIds roster)\<rparr>"
    by blast+
  then have "selectedKnightIds (toggleSelection 9 KnightType roster) = [9]"
    and "selectedClientIds (toggleSelection 9 ClientType roster) = [9]"
    by (simp_all add: e toggleId_def)
  with n m show ?thesis by simp
qed

section \<open>Status transitions\<close>

lemma handleUpdateItem_knight_status:
  "distinct (map k_id (knights s)) \<Longrightarrow> e \<in> set (knights s) \<Longrightarrow>
   map k_status (knights (handleUpdateItem (Some (KnightItem e)) d s)) = map k_status (knights s)
   \<and> map k_id (knights (handleUpdateItem (Some (KnightItem e)) d s)) = map k_id (knights s)
   \<and> map k_relayCount (knights (handleUpdateItem (Some (KnightItem e)) d s))
       = map k_relayCount (knights s)
   \<and> clients (handleUpdateItem (Some (KnightItem e)) d s) = clients s"
proof -
  assume d: "distinct (map k_id (knights s))" and e: "e \<in> set (knights s)"
  have "\<forall>k \<in> set (knights s). k_id k = k_id e \<longrightarrow> k = e"
    using d e by (metis distinct_map inj_onD)
  then show ?thesis by (auto simp: map_eq_conv)
qed

lemma handleUpdateItem_client_status:
  "distinct (map c_id (clients s)) \<Longrightarrow> e \<in> set (clients s) \<Longrightarrow>
   map c_status (clients (handleUpdateItem (Some (ClientItem e)) d s)) = map c_status (clients s)
   \<and> map c_id (clients (handleUpdateItem (Some (ClientItem e)) d s)) = map c_id (clients s)
   \<and> knights (handleUpdateItem (Some (ClientItem e)) d s) = knights s"
proof -
  assume d: "distinct (map c_id (clients s))" and e: "e \<in> set (clients s)"
  have "\<forall>c \<in> set (clients s). c_id c = c_id e \<longrightarrow> c = e"
    using d e by (metis distinct_map inj_onD)
  then show ?thesis by (auto simp: map_eq_conv)
qed

lemma handleToggleKnightStatus_in_party:
  "\<forall>k \<in> set (knights s). k_id k = i \<longrightarrow> k_status k = InParty \<Longrightarrow>
   handleToggleKnightStatus i s = s"
proof -
  assume a: "\<forall>k \<in> set (knights s). k_id k = i \<longrightarrow> k_status k = InParty"
  have "map (\<lambda>k. if k_id k = i then
            (if k_status k = Waiting then k\<lparr>k_status := OffDuty\<rparr>
             else if k_status k = OffDuty then k\<lparr>k_status := Waiting\<rparr>
             else k)
          else k) (knights s) = knights s"
    using a by (intro map_idI) auto
  then show ?thesis by (simp add: handleToggleKnightStatus_def)
qed

text \<open>
  C5. The status of an entity is meant to move only along the edges of the lifecycle.
  \<open>handleUpdateItem\<close> keeps every status and \<open>handleToggleKnightStatus\<close> leaves an
  in-party knight alone (the three lemmas above), but \<open>handleCreateParty\<close> does not look
  at the status of a selected knight: in the sample session, the selected knight is sent
  off duty before the party is formed (it stays selected), and forming the party moves
  it from off-duty to in-party, an edge the lifecycle does not have.
\<close>

theorem off_duty_knight_joins_party:
  "map k_status (knights (handleToggleKnightStatus 1 selected)) = [OffDuty] \<and>
   selectedKnightIds (handleToggleKnightStatus 1 selected) = [1] \<and>
   map k_status (knights (snd (handleCreateParty (handleToggleKnightStatus 1 selected))))
     = [InParty]"
  by (simp add: session_defs handleToggleKnightStatus_def)

lemma off_duty_knight_joins_party_reachable:
  "reachable (snd (handleCreateParty (handleToggleKnightStatus 1 selected)))"
proof -
  have "reachable (handleAddKnight 1 hong initial)"
    by (rule reachable.addKnight [OF reachable.start])
      (simp add: freshKnightIds_def initial_def partyKnightIds_def)
  then have "reachable roster"
    unfolding roster_def
    by (rule reachable.addClient)
      (simp add: freshClientIds_def initial_def partyClientIds_def handleAddKnight_def)
  then have "reachable selected"
    unfolding selected_def by (intro reachable.select)
  then show ?thesis
    by (intro reachable.createParty reachable.toggleDuty)
qed

section \<open>Importing a roster\<close>

lemma importLine_accepts_iff:
  "importLine now index line \<noteq> None \<longleftrightarrow>
     (\<exists>name job powerStr relayCountStr.
        split CHR '':'' line = [name, job, powerStr, relayCountStr] \<and>
        parseInt powerStr \<noteq> None \<and> parseInt relayCountStr \<noteq> None \<and>
        name \<noteq> [] \<and> job \<noteq> [])"
  by (auto simp: importLine_def split: list.splits option.splits)

lemma importLines_length: "length (importLines clock index ls) = length ls"
  by (induction ls arbitrary: index) simp_all

lemma somes_length: "length (somes rs) + length (filter (\<lambda>r. r = None) rs) = length rs"
  by (induction rs rule: somes.induct) simp_all

lemma import_counts:
  "length (somes (importResults clock data)) +
   length (filter (\<lambda>r. r = None) (importResults clock data)) =
   length (split newline (trim data))"
  by (simp add: somes_length importResults_def importLines_length)

text \<open>
  C4. A line is meant to be accepted only when its name and job are non-empty after
  trimming. The handler tests the raw fields and trims afterwards: the line
  \<open>A: :1:2\<close>, whose job is one space, is accepted, nothing is counted as skipped, and the
  knight is stored with an empty job.
\<close>

theorem import_accepts_blank_job:
  "trim '' '' = [] \<and>
   handleImportKnights (\<lambda>i. 100) ''A: :1:2'' initial =
     (ImportSummary 1 None,
      initial\<lparr>knights := [\<lparr>k_id = 100, k_name = ''A'', k_job = [], k_power = 1,
                            k_relayCount = 2, k_status = OffDuty\<rparr>]\<rparr>)"
  by code_simp

section \<open>Display order\<close>






section \<open>Export followed by import\<close>

subsection \<open>Numbers\<close>













subsection \<open>Splitting and joining\<close>

lemma split_not_empty: "split sep s \<noteq> []"
  by (induction s) (auto split: list.splits)









subsection \<open>The export text\<close>


subsection \<open>One line, then the whole text\<close>













section \<open>In-party entities and live parties\<close>








subsection \<open>Party ids\<close>

lemma partiesOk_frame:
  "parties s' = parties s \<Longrightarrow> partyIdCounter s' = partyIdCounter s \<Longrightarrow>
   partiesOk s \<Longrightarrow> partiesOk s'"
  by (simp add: partiesOk_def)



lemma handleImportKnights_frame:
  "parties (snd (handleImportKnights clock data s)) = parties s \<and>
   clients (snd (handleImportKnights clock data s)) = clients s \<and>
   selectedKnightIds (snd (handleImportKnights clock data s)) = selectedKnightIds s \<and>
   selectedClientIds (snd (handleImportKnights clock data s)) = selectedClientIds s \<and>
   partyIdCounter (snd (handleImportKnights clock data s)) = partyIdCounter s"
  by (simp add: handleImportKnights_def Let_def)

lemma handleImportKnights_knights:
  "knights (snd (handleImportKnights clock data s)) = knights s \<or>
   knights (snd (handleImportKnights clock data s)) =
     knights s @ somes (importResults clock data)"
  by (simp add: handleImportKnights_def Let_def)

lemma toggleSelection_frame:
  "parties (toggleSelection i t s) = parties s \<and> knights (toggleSelection i t s) = knights s \<and>
   clients (toggleSelection i t s) = clients s \<and>
   partyIdCounter (toggleSelection i t s) = partyIdCounter s"
  by (cases t) (simp_all split: option.splits)




subsection \<open>Knights\<close>
















subsection \<open>Clients\<close>












subsection \<open>Identifiers of the collections\<close>

lemma handleUpdateItem_ids:
  "map k_id (knights (handleUpdateItem x d s)) = map k_id (knights s) \<and>
   map c_id (clients (handleUpdateItem x d s)) = map c_id (clients s)"
  by (cases "(x, d, s)" rule: handleUpdateItem.cases) (simp_all add: comp_def if_distrib cong: if_cong)

lemma handleCreateParty_ids:
  "map k_id (knights (snd (handleCreateParty s))) = map k_id (knights s) \<and>
   map c_id (clients (snd (handleCreateParty s))) = map c_id (clients s)"
  by (simp add: handleCreateParty_def Let_def comp_def if_distrib cong: if_cong)

lemma handleCompleteMission_ids:
  "map k_id (knights (handleCompleteMission p s)) = map k_id (knights s) \<and>
   map c_id (clients (handleCompleteMission p s)) = map c_id (clients s)"
  by (simp add: handleCompleteMission_def Let_def comp_def if_distrib cong: if_cong
      split: option.splits)

lemma handleToggleKnightStatus_ids:
  "map k_id (knights (handleToggleKnightStatus i s)) = map k_id (knights s) \<and>
   clients (handleToggleKnightStatus i s) = clients s"
  by (auto simp: handleToggleKnightStatus_def)

lemma handleDelete_ids:
  "distinct (map k_id (knights s)) \<and> distinct (map c_id (clients s)) \<Longrightarrow>
   distinct (map k_id (knights (handleDelete x s))) \<and>
   distinct (map c_id (clients (handleDelete x s)))"
  by (cases "(x, s)" rule: handleDelete.cases) (simp_all add: distinct_map_filter)

lemma reachable_distinct_ids:
  "reachable s \<Longrightarrow> distinct (map k_id (knights s)) \<and> distinct (map c_id (clients s))"
proof (induction rule: reachable.induct)
  case start
  show ?case by (simp add: initial_def)
next
  case (addKnight s now d)
  then show ?case by (simp add: handleAddKnight_def freshKnightIds_def)
next
  case (addClient s now d)
  then show ?case by (simp add: handleAddClient_def freshClientIds_def)
next
  case (updateKnight s e d)
  then show ?case by (simp only: handleUpdateItem_ids)
next
  case (updateClient s f d)
  then show ?case by (simp only: handleUpdateItem_ids)
next
  case (delete s x)
  then show ?case by (simp only: handleDelete_ids)
next
  case (select s i t)
  then show ?case by (simp only: toggleSelection_frame)
next
  case (createParty s)
  then show ?case by (simp only: handleCreateParty_ids)
next
  case (completeMission s p)
  then show ?case by (simp only: handleCompleteMission_ids)
next
  case (toggleDuty s i)
  then show ?case by (simp only: handleToggleKnightStatus_ids)
next
  case (importKnights s clock data)
  from importKnights.hyps(2)
  have "distinct (map k_id (somes (importResults clock data)))"
    and "\<forall>i \<in> set (map k_id (somes (importResults clock data))). i \<notin> set (map k_id (knights s))"
    by (simp_all add: freshKnightIds_def list_all_iff)
  then have "distinct (map k_id (knights s @ somes (importResults clock data)))"
    using importKnights.IH by (simp add: disjoint_iff) blast
  with importKnights.IH handleImportKnights_knights [of clock data s]
    handleImportKnights_frame [of clock data s]
  show ?case by auto
qed


subsection \<open>The correspondence\<close>



end
